theory Spec2Isabelle
  imports Complex_Main
begin

section \<open>JavaScript numbers and their comparisons\<close>

text \<open>
  Every numeric field of a reading is a JavaScript \<^verbatim>\<open>number\<close>: a finite value,
  one of the two infinities, or NaN. The finite values are embedded in the reals (every
  double is a real, and the thresholds 100, 120, 60, 40, 37.5 and 39 are doubles), so a
  statement proved for every \<open>Num x\<close> holds for every finite double.
\<close>

datatype number = Num real | PosInfinity | NegInfinity | NaN

text \<open>The operator \<^verbatim>\<open><\<close>: a comparison with NaN on either side is false.\<close>

fun js_lt :: "number \<Rightarrow> number \<Rightarrow> bool" where
  "js_lt NaN _ = False"
| "js_lt _ NaN = False"
| "js_lt (Num a) (Num b) = (a < b)"
| "js_lt (Num _) PosInfinity = True"
| "js_lt (Num _) NegInfinity = False"
| "js_lt PosInfinity _ = False"
| "js_lt NegInfinity NegInfinity = False"
| "js_lt NegInfinity _ = True"

text \<open>The operator \<^verbatim>\<open>></\<close> is \<^verbatim>\<open><\<close> with the operands exchanged.\<close>

definition js_gt :: "number \<Rightarrow> number \<Rightarrow> bool" where
  "js_gt a b = js_lt b a"

text \<open>
  The operator \<^verbatim>\<open><=\<close>: false when an operand is NaN, otherwise the negation of
  \<^verbatim>\<open>b < a\<close>. The source never uses it; the ranges of the specification are
  written with it.
\<close>

definition js_le :: "number \<Rightarrow> number \<Rightarrow> bool" where
  "js_le a b = (a \<noteq> NaN \<and> b \<noteq> NaN \<and> \<not> js_lt b a)"

section \<open>Data model (types/index.ts)\<close>

record ECGReading =
  reading_id :: "string option"
  ecg :: number
  bpm :: number
  rr :: number
  hrv :: number
  temperature :: number
  timestamp :: string
  patientCode :: "string option"

datatype alert_type = tachycardia | bradycardia | fever | normal

datatype severity_level = low | medium | high

record HealthAlert =
  type :: alert_type
  message :: string
  severity :: severity_level

section \<open>The alert evaluator (utils/healthAlerts.ts)\<close>

text \<open>
  The degree sign of the fever message is the single code unit U+00B0 of the source
  string.
\<close>

definition degree :: string where
  "degree = [CHR 0xB0]"

text \<open>
  \<open>analyzeHealthData\<close> follows the source statement by statement: \<open>alerts\<close> starts
  empty, each \<^verbatim>\<open>push\<close> appends at the end, and the last test reads the length of
  what has been accumulated. The template literals convert a number to text; that
  conversion belongs to the language runtime and is the parameter \<open>str\<close>.
\<close>

definition analyzeHealthData :: "(number \<Rightarrow> string) \<Rightarrow> ECGReading \<Rightarrow> HealthAlert list" where
  "analyzeHealthData str reading =
    (let alerts0 = [];
         alerts1 =
           (if js_gt (bpm reading) (Num 100)
            then alerts0 @
              [\<lparr>type = tachycardia,
                message = ''High heart rate detected: '' @ str (bpm reading) @ '' BPM (Normal: 60-100)'',
                severity = (if js_gt (bpm reading) (Num 120) then high else medium)\<rparr>]
            else alerts0);
         alerts2 =
           (if js_lt (bpm reading) (Num 60)
            then alerts1 @
              [\<lparr>type = bradycardia,
                message = ''Low heart rate detected: '' @ str (bpm reading) @ '' BPM (Normal: 60-100)'',
                severity = (if js_lt (bpm reading) (Num 40) then high else medium)\<rparr>]
            else alerts1);
         alerts3 =
           (if js_gt (temperature reading) (Num 37.5)
            then alerts2 @
              [\<lparr>type = fever,
                message = ''Elevated temperature: '' @ str (temperature reading) @ degree
                          @ ''C (Normal: <37.5'' @ degree @ ''C)'',
                severity = (if js_gt (temperature reading) (Num 39) then high else medium)\<rparr>]
            else alerts2);
         alerts4 =
           (if length alerts3 = 0
            then alerts3 @
              [\<lparr>type = normal,
                message = ''All vital signs within normal range'',
                severity = low\<rparr>]
            else alerts3)
     in alerts4)"

text \<open>The alerts of one kind in an output, in order.\<close>

definition of_type :: "alert_type \<Rightarrow> HealthAlert list \<Rightarrow> HealthAlert list" where
  "of_type k alerts = filter (\<lambda>a. type a = k) alerts"

text \<open>A reading with the given heart rate and temperature, for the examples.\<close>

definition sample :: "real \<Rightarrow> real \<Rightarrow> ECGReading" where
  "sample b t =
    \<lparr>reading_id = None, ecg = Num 0, bpm = Num b, rr = Num 0, hrv = Num 0,
     temperature = Num t, timestamp = ''2024-01-01T00:00:00Z'', patientCode = None\<rparr>"

section \<open>The connection manager (hooks/useWebSocket.ts)\<close>

datatype ConnectionStatus = connecting | connected | disconnected

text \<open>
  The hook creates sockets and timers of the browser. The part of the browser it depends
  on is kept in the same record as the hook's own state: every \<^verbatim>\<open>WebSocket\<close>
  constructed so far with its \<^verbatim>\<open>readyState\<close> (a socket is named by its position
  in \<open>sockets\<close>), and every pending timeout with its handle and its delay in
  milliseconds. The only callback the hook ever passes to \<^verbatim>\<open>setTimeout\<close> is
  \<^verbatim>\<open>connect\<close>, and every socket gets the same four handlers, so neither is
  stored. The three \<^verbatim>\<open>useState\<close> fields hold the value last passed to their
  setter.

  \<open>data\<close> is declared as a reading or \<^verbatim>\<open>null\<close>, but it receives whatever
  \<^verbatim>\<open>JSON.parse\<close> returns, unchecked. So it holds a \<open>js_value\<close>: \<^verbatim>\<open>null\<close>, an
  object that is a reading, or any other value (a number, a string, an object of another
  shape, ...), which is kept as its JSON text. \<open>dataRef\<close> counts the calls of
  \<^verbatim>\<open>setData\<close>; the monitor uses it to see that \<open>data\<close> was set.
\<close>

datatype readyState = CONNECTING | OPEN | CLOSING | CLOSED

datatype js_value = Null | Reading ECGReading | Other string

record hook =
  data :: js_value
  dataRef :: nat
  connectionStatus :: ConnectionStatus
  error :: "string option"
  ws :: "nat option"
  reconnectTimeoutRef :: "nat option"
  sockets :: "readyState list"
  timeouts :: "(nat \<times> nat) list"
  lastTimeout :: nat

text \<open>The initial values of \<^verbatim>\<open>useState\<close> and \<^verbatim>\<open>useRef\<close>, in a browser that has no socket and no timer yet.\<close>

definition initial :: hook where
  "initial =
    \<lparr>data = Null, dataRef = 0, connectionStatus = disconnected, error = None, ws = None,
     reconnectTimeoutRef = None, sockets = [], timeouts = [], lastTimeout = 0\<rparr>"

text \<open>
  \<^verbatim>\<open>setTimeout\<close> returns a new handle, a positive integer, and
  \<^verbatim>\<open>clearTimeout\<close> removes the timeout with that handle, if it is still pending.
\<close>

definition setTimeout :: "nat \<Rightarrow> hook \<Rightarrow> nat \<times> hook" where
  "setTimeout delay s =
    (let h = Suc (lastTimeout s)
     in (h, s\<lparr>timeouts := timeouts s @ [(h, delay)], lastTimeout := h\<rparr>))"

definition clearTimeout :: "nat \<Rightarrow> hook \<Rightarrow> hook" where
  "clearTimeout h s = s\<lparr>timeouts := filter (\<lambda>t. fst t \<noteq> h) (timeouts s)\<rparr>"

text \<open>
  \<^verbatim>\<open>WebSocket.close()\<close> starts the closing handshake of a socket that is connecting
  or open and does nothing otherwise; the close event comes later.
\<close>

definition ws_close :: "nat \<Rightarrow> hook \<Rightarrow> hook" where
  "ws_close k s =
    (if k < length (sockets s) \<and> (sockets s ! k = CONNECTING \<or> sockets s ! k = OPEN)
     then s\<lparr>sockets := (sockets s)[k := CLOSING]\<rparr>
     else s)"

text \<open>
  \<open>connect\<close>. The constructor throws on an address it cannot parse; \<open>url_ok\<close> says
  whether it accepts the hook's \<^verbatim>\<open>url\<close>. When it throws, \<^verbatim>\<open>ws.current\<close> keeps its
  old value and the \<^verbatim>\<open>catch\<close> block runs.
\<close>

definition connect :: "bool \<Rightarrow> hook \<Rightarrow> hook" where
  "connect url_ok s =
    (let s1 = s\<lparr>connectionStatus := connecting, error := None\<rparr>
     in if url_ok
        then s1\<lparr>ws := Some (length (sockets s1)), sockets := sockets s1 @ [CONNECTING]\<rparr>
        else s1\<lparr>error := Some ''Failed to connect'', connectionStatus := disconnected\<rparr>)"

text \<open>The four handlers that \<open>connect\<close> attaches to the socket it creates.\<close>

definition onopen :: "hook \<Rightarrow> hook" where
  "onopen s = s\<lparr>connectionStatus := connected, error := None\<rparr>"

text \<open>
  \<^verbatim>\<open>JSON.parse\<close> is the parameter \<open>parse\<close>: \<open>None\<close> is the exception it throws
  on text that is not JSON, which the handler catches, and \<open>Some v\<close> is the value it
  returns. The annotation \<^verbatim>\<open>const reading: ECGReading\<close> checks nothing at run time:
  whatever was parsed is passed to \<^verbatim>\<open>setData\<close>.
\<close>

definition onmessage :: "(string \<Rightarrow> js_value option) \<Rightarrow> string \<Rightarrow> hook \<Rightarrow> hook" where
  "onmessage parse payload s =
    (case parse payload of
       Some reading \<Rightarrow> s\<lparr>data := reading, dataRef := Suc (dataRef s)\<rparr>
     | None \<Rightarrow> s\<lparr>error := Some ''Invalid data format received''\<rparr>)"

definition onclose :: "hook \<Rightarrow> hook" where
  "onclose s =
    (let s1 = s\<lparr>connectionStatus := disconnected\<rparr>;
         (h, s2) = setTimeout 3000 s1
     in s2\<lparr>reconnectTimeoutRef := Some h\<rparr>)"

definition onerror :: "hook \<Rightarrow> hook" where
  "onerror s = s\<lparr>error := Some ''Connection error'', connectionStatus := disconnected\<rparr>"

text \<open>
  The cleanup function of the effect. A timer handle is a positive integer, hence truthy,
  so the first test is whether the reference holds one.
\<close>

definition cleanup :: "hook \<Rightarrow> hook" where
  "cleanup s =
    (let s1 = (case reconnectTimeoutRef s of Some h \<Rightarrow> clearTimeout h s | None \<Rightarrow> s);
         s2 = (case ws s1 of Some k \<Rightarrow> ws_close k s1 | None \<Rightarrow> s1)
     in s2)"

text \<open>The effect: on mount it connects; when \<^verbatim>\<open>url\<close> changes it cleans up and connects again.\<close>

definition mount :: "bool \<Rightarrow> hook" where
  "mount url_ok = connect url_ok initial"

definition rerun_effect :: "bool \<Rightarrow> hook \<Rightarrow> hook" where
  "rerun_effect url_ok s = connect url_ok (cleanup s)"

text \<open>
  What can happen to a mounted hook. The browser delivers an open event to a connecting
  socket, a message to an open socket, an error or a close event to a socket that is not
  closed yet (the close event closes it), and fires a pending timeout, which removes it.
  The user invokes the returned \<^verbatim>\<open>reconnect\<close>, which is \<open>connect\<close> itself, and
  unmounting runs the cleanup. An event that cannot happen in a state gives \<open>None\<close>.
\<close>

datatype event =
    Opened nat
  | Message nat string
  | Closed nat
  | Errored nat
  | TimeoutFired nat
  | Reconnect
  | Unmount

fun step :: "bool \<Rightarrow> (string \<Rightarrow> js_value option) \<Rightarrow> event \<Rightarrow> hook \<Rightarrow> hook option" where
  "step url_ok parse (Opened k) s =
    (if k < length (sockets s) \<and> sockets s ! k = CONNECTING
     then Some (onopen (s\<lparr>sockets := (sockets s)[k := OPEN]\<rparr>))
     else None)"
| "step url_ok parse (Message k payload) s =
    (if k < length (sockets s) \<and> sockets s ! k = OPEN
     then Some (onmessage parse payload s)
     else None)"
| "step url_ok parse (Closed k) s =
    (if k < length (sockets s) \<and> sockets s ! k \<noteq> CLOSED
     then Some (onclose (s\<lparr>sockets := (sockets s)[k := CLOSED]\<rparr>))
     else None)"
| "step url_ok parse (Errored k) s =
    (if k < length (sockets s) \<and> sockets s ! k \<noteq> CLOSED
     then Some (onerror s)
     else None)"
| "step url_ok parse (TimeoutFired h) s =
    (if h \<in> fst ` set (timeouts s)
     then Some (connect url_ok (clearTimeout h s))
     else None)"
| "step url_ok parse Reconnect s = Some (connect url_ok s)"
| "step url_ok parse Unmount s = Some (cleanup s)"

fun run :: "bool \<Rightarrow> (string \<Rightarrow> js_value option) \<Rightarrow> event list \<Rightarrow> hook \<Rightarrow> hook option" where
  "run url_ok parse [] s = Some s"
| "run url_ok parse (e # es) s =
    (case step url_ok parse e s of None \<Rightarrow> None | Some s' \<Rightarrow> run url_ok parse es s')"

text \<open>The events that the browser raises, as opposed to the user and the component.\<close>

fun from_browser :: "event \<Rightarrow> bool" where
  "from_browser Reconnect = False"
| "from_browser Unmount = False"
| "from_browser _ = True"

text \<open>
  The hook owns one connection when at most one socket is not closed, that socket is the
  one \<^verbatim>\<open>ws.current\<close> refers to, at most one timeout is pending, the reference holds
  its handle, and none is pending while the socket is alive.
\<close>

definition one_connection :: "hook \<Rightarrow> bool" where
  "one_connection s =
    (list_all (\<lambda>k. sockets s ! k \<noteq> CLOSED \<longrightarrow> ws s = Some k \<and> timeouts s = [])
        [0 ..< length (sockets s)]
     \<and> list_all (\<lambda>t. reconnectTimeoutRef s = Some (fst t)) (timeouts s)
     \<and> length (timeouts s) \<le> 1)"

section \<open>The rolling history of the monitor (components/ECGMonitor.tsx)\<close>

text \<open>\<^verbatim>\<open>Array.prototype.slice(start)\<close>: a negative start counts from the end, and both are clamped to the array.\<close>

definition slice :: "int \<Rightarrow> 'a list \<Rightarrow> 'a list" where
  "slice start xs =
    (let len = int (length xs);
         k = (if start < 0 then max (len + start) 0 else min start len)
     in drop (nat k) xs)"

record TimedReading = ECGReading +
  time :: string

record monitor =
  ecgHistory :: "TimedReading list"
  alerts :: "HealthAlert list"
  lastUpdate :: "nat option"

definition monitor_initial :: monitor where
  "monitor_initial = \<lparr>ecgHistory = [], alerts = [], lastUpdate = None\<rparr>"

text \<open>The state update of \<^verbatim>\<open>setEcgHistory\<close>.\<close>

definition push_history :: "TimedReading \<Rightarrow> TimedReading list \<Rightarrow> TimedReading list" where
  "push_history newReading prev = (let updated = slice (- 50) (prev @ [newReading]) in updated)"

text \<open>
  The body of the effect that depends on \<^verbatim>\<open>data\<close>, for \<^verbatim>\<open>data\<close> of its declared
  type: \<open>None\<close> is \<^verbatim>\<open>null\<close>, for which the test \<^verbatim>\<open>if (data)\<close> fails. The
  formatting of the timestamp and the clock belong to the runtime:
  \<open>toLocaleTimeString\<close> and \<open>now\<close>.
\<close>

definition on_data ::
  "(string \<Rightarrow> string) \<Rightarrow> (number \<Rightarrow> string) \<Rightarrow> nat \<Rightarrow> ECGReading option \<Rightarrow> monitor \<Rightarrow> monitor" where
  "on_data toLocaleTimeString str now d m =
    (case d of
       None \<Rightarrow> m
     | Some dat \<Rightarrow>
        (let timeString = toLocaleTimeString (timestamp dat);
             newReading = ECGReading.extend dat (TimedReading.fields timeString)
         in m\<lparr>ecgHistory := push_history newReading (ecgHistory m),
              alerts := analyzeHealthData str dat,
              lastUpdate := Some now\<rparr>))"

text \<open>
  The monitor with its hook. After an event of the hook the component renders again, and
  the effect runs when \<^verbatim>\<open>data\<close> has been set since the previous render. The effect
  and \<open>analyzeHealthData\<close> are typed for a reading or \<^verbatim>\<open>null\<close>; what they compute
  from a value of another type depends on the coercions of the language and is not
  followed: the step then stops with \<open>not_a_reading\<close>. \<open>cannot_happen\<close> is an event
  that the hook cannot receive in its state.
\<close>

record app =
  conn :: hook
  view :: monitor

datatype stop = cannot_happen | not_a_reading

definition app_step ::
  "bool \<Rightarrow> (string \<Rightarrow> js_value option) \<Rightarrow> (string \<Rightarrow> string) \<Rightarrow> (number \<Rightarrow> string) \<Rightarrow> nat
    \<Rightarrow> event \<Rightarrow> app \<Rightarrow> stop + app" where
  "app_step url_ok parse toLocaleTimeString str now e a =
    (case step url_ok parse e (conn a) of
       None \<Rightarrow> Inl cannot_happen
     | Some c \<Rightarrow>
        (if dataRef c = dataRef (conn a) then Inr \<lparr>conn = c, view = view a\<rparr>
         else
          (case data c of
             Null \<Rightarrow>
               Inr \<lparr>conn = c, view = on_data toLocaleTimeString str now None (view a)\<rparr>
           | Reading dat \<Rightarrow>
               Inr \<lparr>conn = c, view = on_data toLocaleTimeString str now (Some dat) (view a)\<rparr>
           | Other v \<Rightarrow> Inl not_a_reading)))"

text \<open>The \<open>i\<close>-th entry of an example history: heart rate \<open>i\<close>, shown at time \<open>t\<close>.\<close>

definition timed :: "nat \<Rightarrow> TimedReading" where
  "timed i = ECGReading.extend (sample (real i) 36.5) (TimedReading.fields ''t'')"

text \<open>
  An example of a running monitor: the socket is open, one reading with heart rate 70 and
  temperature 36.5 has arrived and has been evaluated.
\<close>

definition example_app :: app where
  "example_app =
    \<lparr>conn = (mount True)\<lparr>sockets := [OPEN], connectionStatus := connected,
                           data := Reading (sample 70 36.5), dataRef := 1\<rparr>,
     view = on_data (\<lambda>t. t) (\<lambda>_. ''70'') 0 (Some (sample 70 36.5)) monitor_initial\<rparr>"

text \<open>The text of the two numbers of the example reading of the specification.\<close>

definition example_str :: "number \<Rightarrow> string" where
  "example_str x = (if x = Num 130 then ''130'' else ''38'')"

text \<open>
  A parser for the example payloads, on which it does what \<^verbatim>\<open>JSON.parse\<close> does:
  \<^verbatim>\<open>null\<close> is the value null, \<^verbatim>\<open>42\<close> is a number, and \<^verbatim>\<open>{oops\<close> is not
  JSON. It is used on these three only.
\<close>

definition example_parse :: "string \<Rightarrow> js_value option" where
  "example_parse p =
    (if p = ''null'' then Some Null else if p = ''42'' then Some (Other ''42'') else None)"

text \<open>A monitor whose history is full: the entries 0 to 49.\<close>

definition full_monitor :: monitor where
  "full_monitor = monitor_initial\<lparr>ecgHistory := map timed [0..<50]\<rparr>"

section \<open>Facts about the comparisons\<close>

lemma js_gt_Num: "js_gt x (Num a) = (case x of Num b \<Rightarrow> a < b | PosInfinity \<Rightarrow> True | _ \<Rightarrow> False)"
  by (cases x) (simp_all add: js_gt_def)

lemma js_lt_Num: "js_lt x (Num a) = (case x of Num b \<Rightarrow> b < a | NegInfinity \<Rightarrow> True | _ \<Rightarrow> False)"
  by (cases x) simp_all

lemma js_le_Num: "js_le x (Num a) = (case x of Num b \<Rightarrow> b \<le> a | NegInfinity \<Rightarrow> True | _ \<Rightarrow> False)"
  by (cases x) (auto simp add: js_le_def)

lemma js_ge_Num: "js_le (Num a) x = (case x of Num b \<Rightarrow> a \<le> b | PosInfinity \<Rightarrow> True | _ \<Rightarrow> False)"
  by (cases x) (auto simp add: js_le_def)

lemmas cmp = js_gt_Num js_lt_Num js_le_Num js_ge_Num

section \<open>The alert evaluator\<close>

text \<open>
  Each statement below is proved by running the four tests of \<open>analyzeHealthData\<close> on
  the four kinds of number that the heart rate and the temperature can be.
\<close>

lemma analyzeHealthData_length: "length (analyzeHealthData str r) \<le> 2"
  by (cases "bpm r"; cases "temperature r")
     (auto simp add: analyzeHealthData_def cmp Let_def)

text \<open>
  Claim C1. The output has a tachycardia alert exactly when \<^verbatim>\<open>bpm > 100\<close>. Its
  severity is high when \<^verbatim>\<open>bpm > 120\<close> and medium when \<^verbatim>\<open>100 < bpm <= 120\<close>,
  and the output never has two tachycardia alerts.
\<close>

theorem tachycardia_alert:
  "((\<exists>a \<in> set (analyzeHealthData str r). type a = tachycardia) \<longleftrightarrow> js_gt (bpm r) (Num 100))
   \<and> (js_gt (bpm r) (Num 120) \<longrightarrow>
        map severity (of_type tachycardia (analyzeHealthData str r)) = [high])
   \<and> (js_gt (bpm r) (Num 100) \<and> js_le (bpm r) (Num 120) \<longrightarrow>
        map severity (of_type tachycardia (analyzeHealthData str r)) = [medium])
   \<and> length (of_type tachycardia (analyzeHealthData str r)) \<le> 1"
  by (cases "bpm r"; cases "temperature r")
     (auto simp add: analyzeHealthData_def of_type_def cmp Let_def)

theorem tachycardia_alert_witness:
  "js_gt (bpm (sample 130 38.0)) (Num 120)
   \<and> map severity (of_type tachycardia (analyzeHealthData example_str (sample 130 38.0))) = [high]
   \<and> js_gt (bpm (sample 110 38.0)) (Num 100) \<and> js_le (bpm (sample 110 38.0)) (Num 120)
   \<and> map severity (of_type tachycardia (analyzeHealthData example_str (sample 110 38.0))) = [medium]"
  using tachycardia_alert [of example_str "sample 130 38.0"]
    tachycardia_alert [of example_str "sample 110 38.0"]
  by (simp add: sample_def cmp)

text \<open>
  Claim C2. The output has a bradycardia alert exactly when \<^verbatim>\<open>bpm < 60\<close>. Its
  severity is high when \<^verbatim>\<open>bpm < 40\<close> and medium when \<^verbatim>\<open>40 <= bpm < 60\<close>; at a
  heart rate of exactly 40 it is medium.
\<close>

theorem bradycardia_alert:
  "((\<exists>a \<in> set (analyzeHealthData str r). type a = bradycardia) \<longleftrightarrow> js_lt (bpm r) (Num 60))
   \<and> (js_lt (bpm r) (Num 40) \<longrightarrow>
        map severity (of_type bradycardia (analyzeHealthData str r)) = [high])
   \<and> (js_le (Num 40) (bpm r) \<and> js_lt (bpm r) (Num 60) \<longrightarrow>
        map severity (of_type bradycardia (analyzeHealthData str r)) = [medium])
   \<and> (bpm r = Num 40 \<longrightarrow>
        map severity (of_type bradycardia (analyzeHealthData str r)) = [medium])"
  by (cases "bpm r"; cases "temperature r")
     (auto simp add: analyzeHealthData_def of_type_def cmp Let_def)

theorem bradycardia_alert_witness:
  "js_lt (bpm (sample 35 36.5)) (Num 40)
   \<and> map severity (of_type bradycardia (analyzeHealthData example_str (sample 35 36.5))) = [high]
   \<and> js_le (Num 40) (bpm (sample 40 36.5)) \<and> js_lt (bpm (sample 40 36.5)) (Num 60)
   \<and> map severity (of_type bradycardia (analyzeHealthData example_str (sample 40 36.5))) = [medium]"
  using bradycardia_alert [of example_str "sample 35 36.5"]
    bradycardia_alert [of example_str "sample 40 36.5"]
  by (simp add: sample_def cmp)

text \<open>
  Claim C3. The output has a fever alert exactly when \<^verbatim>\<open>temperature > 37.5\<close>. Its
  severity is high when \<^verbatim>\<open>temperature > 39.0\<close> and medium when
  \<^verbatim>\<open>37.5 < temperature <= 39.0\<close>; at a temperature of exactly 39.0 it is medium.
\<close>

theorem fever_alert:
  "((\<exists>a \<in> set (analyzeHealthData str r). type a = fever) \<longleftrightarrow> js_gt (temperature r) (Num 37.5))
   \<and> (js_gt (temperature r) (Num 39.0) \<longrightarrow>
        map severity (of_type fever (analyzeHealthData str r)) = [high])
   \<and> (js_gt (temperature r) (Num 37.5) \<and> js_le (temperature r) (Num 39.0) \<longrightarrow>
        map severity (of_type fever (analyzeHealthData str r)) = [medium])
   \<and> (temperature r = Num 39.0 \<longrightarrow>
        map severity (of_type fever (analyzeHealthData str r)) = [medium])"
  by (cases "bpm r"; cases "temperature r")
     (auto simp add: analyzeHealthData_def of_type_def cmp Let_def)

theorem fever_alert_witness:
  "js_gt (temperature (sample 70 40.0)) (Num 39.0)
   \<and> map severity (of_type fever (analyzeHealthData example_str (sample 70 40.0))) = [high]
   \<and> js_gt (temperature (sample 70 39.0)) (Num 37.5) \<and> js_le (temperature (sample 70 39.0)) (Num 39.0)
   \<and> map severity (of_type fever (analyzeHealthData example_str (sample 70 39.0))) = [medium]"
  using fever_alert [of example_str "sample 70 40.0"]
    fever_alert [of example_str "sample 70 39.0"]
  by (simp add: sample_def cmp)

text \<open>
  Claim C4. The output is never empty. For a heart rate in \<^verbatim>\<open>[60, 100]\<close> and a
  temperature of at most 37.5 it is exactly one alert, of kind normal and severity low.
  The normal alert is in the output exactly when no tachycardia, bradycardia or fever
  alert is (that is, when none of the three tests succeeds), and then it is the whole
  output.
\<close>

theorem normal_alert:
  "analyzeHealthData str r \<noteq> []
   \<and> (js_le (Num 60) (bpm r) \<and> js_le (bpm r) (Num 100) \<and> js_le (temperature r) (Num 37.5) \<longrightarrow>
        analyzeHealthData str r =
          [\<lparr>type = normal, message = ''All vital signs within normal range'', severity = low\<rparr>])
   \<and> ((\<exists>a \<in> set (analyzeHealthData str r). type a = normal) \<longleftrightarrow>
        \<not> (\<exists>a \<in> set (analyzeHealthData str r).
              type a = tachycardia \<or> type a = bradycardia \<or> type a = fever))
   \<and> ((\<exists>a \<in> set (analyzeHealthData str r). type a = normal) \<longleftrightarrow>
        \<not> js_gt (bpm r) (Num 100) \<and> \<not> js_lt (bpm r) (Num 60)
        \<and> \<not> js_gt (temperature r) (Num 37.5))
   \<and> ((\<exists>a \<in> set (analyzeHealthData str r). type a = normal) \<longrightarrow>
        analyzeHealthData str r =
          [\<lparr>type = normal, message = ''All vital signs within normal range'', severity = low\<rparr>])"
  by (cases "bpm r"; cases "temperature r")
     (auto simp add: analyzeHealthData_def cmp Let_def)

theorem normal_alert_witness:
  "js_le (Num 60) (bpm (sample 70 36.5)) \<and> js_le (bpm (sample 70 36.5)) (Num 100)
   \<and> js_le (temperature (sample 70 36.5)) (Num 37.5)
   \<and> analyzeHealthData example_str (sample 70 36.5) =
        [\<lparr>type = normal, message = ''All vital signs within normal range'', severity = low\<rparr>]"
proof -
  have range: "js_le (Num 60) (bpm (sample 70 36.5)) \<and> js_le (bpm (sample 70 36.5)) (Num 100)
      \<and> js_le (temperature (sample 70 36.5)) (Num 37.5)"
    by (simp add: sample_def cmp)
  with normal_alert [of example_str "sample 70 36.5"] show ?thesis
    by blast
qed


text \<open>
  Claim C5. In the output every tachycardia or bradycardia alert stands before every
  fever alert. For a heart rate of 130 and a temperature of 38.0 the output is exactly
  the high tachycardia alert followed by the medium fever alert, without a normal alert.
\<close>

theorem alert_order:
  "(\<forall>i j. i < length (analyzeHealthData str r) \<and> j < length (analyzeHealthData str r)
        \<and> (type (analyzeHealthData str r ! i) = tachycardia
            \<or> type (analyzeHealthData str r ! i) = bradycardia)
        \<and> type (analyzeHealthData str r ! j) = fever \<longrightarrow> i < j)
   \<and> (bpm r = Num 130 \<and> temperature r = Num 38.0 \<longrightarrow>
       analyzeHealthData str r =
        [\<lparr>type = tachycardia,
          message = ''High heart rate detected: '' @ str (Num 130) @ '' BPM (Normal: 60-100)'',
          severity = high\<rparr>,
         \<lparr>type = fever,
          message = ''Elevated temperature: '' @ str (Num 38.0) @ degree
                    @ ''C (Normal: <37.5'' @ degree @ ''C)'',
          severity = medium\<rparr>])"
  by (cases "bpm r"; cases "temperature r")
     (auto simp add: analyzeHealthData_def cmp Let_def nth_Cons less_Suc_eq_0_disj
           split: nat.splits)

theorem alert_order_witness:
  "bpm (sample 130 38.0) = Num 130 \<and> temperature (sample 130 38.0) = Num 38.0
   \<and> analyzeHealthData example_str (sample 130 38.0) =
        [\<lparr>type = tachycardia,
          message = ''High heart rate detected: 130 BPM (Normal: 60-100)'',
          severity = high\<rparr>,
         \<lparr>type = fever,
          message = ''Elevated temperature: 38'' @ degree @ ''C (Normal: <37.5'' @ degree @ ''C)'',
          severity = medium\<rparr>]"
proof -
  have reading: "bpm (sample 130 38.0) = Num 130 \<and> temperature (sample 130 38.0) = Num 38.0"
    by (simp add: sample_def)
  have shown: "example_str (Num 130) = ''130''" "example_str (Num 38.0) = ''38''"
    by (simp_all add: example_str_def)
  from alert_order [of example_str "sample 130 38.0"] reading
  have "analyzeHealthData example_str (sample 130 38.0) =
        [\<lparr>type = tachycardia,
          message = ''High heart rate detected: '' @ example_str (Num 130) @ '' BPM (Normal: 60-100)'',
          severity = high\<rparr>,
         \<lparr>type = fever,
          message = ''Elevated temperature: '' @ example_str (Num 38.0) @ degree
                    @ ''C (Normal: <37.5'' @ degree @ ''C)'',
          severity = medium\<rparr>]"
    by blast
  with reading shown show ?thesis
    by simp
qed


text \<open>
  Claim C10. The output has at most one alert of each kind and never both a tachycardia
  and a bradycardia alert, because \<^verbatim>\<open>bpm > 100\<close> and \<^verbatim>\<open>bpm < 60\<close> exclude each
  other; so its length is at most 3.
\<close>

theorem alerts_at_most_one_each:
  "(\<forall>k. length (of_type k (analyzeHealthData str r)) \<le> 1)
   \<and> \<not> ((\<exists>a \<in> set (analyzeHealthData str r). type a = tachycardia)
         \<and> (\<exists>a \<in> set (analyzeHealthData str r). type a = bradycardia))
   \<and> \<not> (js_gt (bpm r) (Num 100) \<and> js_lt (bpm r) (Num 60))
   \<and> length (analyzeHealthData str r) \<le> 3"
  by (cases "bpm r"; cases "temperature r")
     (auto simp add: analyzeHealthData_def of_type_def cmp Let_def)

theorem alerts_at_most_one_each_witness:
  "length (of_type tachycardia (analyzeHealthData example_str (sample 130 38.0))) \<le> 1
   \<and> length (of_type fever (analyzeHealthData example_str (sample 130 38.0))) \<le> 1
   \<and> \<not> (\<exists>a \<in> set (analyzeHealthData example_str (sample 130 38.0)). type a = bradycardia)
   \<and> length (analyzeHealthData example_str (sample 130 38.0)) \<le> 3"
proof -
  have "\<exists>a \<in> set (analyzeHealthData example_str (sample 130 38.0)). type a = tachycardia"
    by (simp add: analyzeHealthData_def sample_def cmp Let_def)
  with alerts_at_most_one_each [of example_str "sample 130 38.0"] show ?thesis
    by blast
qed

section \<open>The connection manager\<close>

subsection \<open>What \<open>connect\<close> and the cleanup leave alone\<close>

lemma connect_keeps:
  "timeouts (connect url_ok s) = timeouts s
   \<and> reconnectTimeoutRef (connect url_ok s) = reconnectTimeoutRef s
   \<and> take (length (sockets s)) (sockets (connect url_ok s)) = sockets s"
  by (simp add: connect_def Let_def)

lemma cleanup_timeouts:
  "timeouts (cleanup s) =
    (case reconnectTimeoutRef s of
       Some h \<Rightarrow> filter (\<lambda>t. fst t \<noteq> h) (timeouts s)
     | None \<Rightarrow> timeouts s)"
  by (simp add: cleanup_def clearTimeout_def ws_close_def Let_def split: option.splits)

lemma cleanup_length: "length (sockets (cleanup s)) = length (sockets s)"
  by (simp add: cleanup_def clearTimeout_def ws_close_def Let_def split: option.splits)

lemma cleanup_sockets_closed:
  "k < length (sockets s) \<Longrightarrow> sockets s ! k = CLOSED \<Longrightarrow> sockets (cleanup s) ! k = CLOSED"
  by (simp add: cleanup_def clearTimeout_def ws_close_def Let_def nth_list_update
           split: option.splits)

text \<open>With every socket closed and no timeout pending, the browser has nothing to deliver.\<close>

lemma quiet:
  assumes "\<forall>k < length (sockets s). sockets s ! k = CLOSED" "timeouts s = []" "from_browser e"
  shows "step url_ok parse e s = None"
  using assms by (cases e) auto

subsection \<open>One connection at a time\<close>

lemma one_connection_iff:
  "one_connection s \<longleftrightarrow>
    (\<forall>k < length (sockets s). sockets s ! k \<noteq> CLOSED \<longrightarrow> ws s = Some k \<and> timeouts s = [])
    \<and> (\<forall>t \<in> set (timeouts s). reconnectTimeoutRef s = Some (fst t))
    \<and> length (timeouts s) \<le> 1"
  by (auto simp add: one_connection_def list_all_iff)

lemma one_connection_mount: "one_connection (mount url_ok)"
  by (simp add: one_connection_iff mount_def connect_def initial_def Let_def)

lemma one_connection_alive:
  "one_connection s \<Longrightarrow> k < length (sockets s) \<Longrightarrow> sockets s ! k \<noteq> CLOSED
    \<Longrightarrow> ws s = Some k \<and> timeouts s = []"
  by (simp add: one_connection_iff)

lemma one_connection_others:
  assumes "one_connection s" "k < length (sockets s)" "sockets s ! k \<noteq> CLOSED"
    and "j < length (sockets s)" "j \<noteq> k"
  shows "sockets s ! j = CLOSED"
proof (rule ccontr)
  assume "sockets s ! j \<noteq> CLOSED"
  with assms one_connection_alive [of s j] one_connection_alive [of s k] show False
    by simp
qed

text \<open>
  The events of the browser keep the hook at one connection: a close event leaves no live
  socket and one timeout, and the timeout that fires finds every socket closed.
\<close>

lemma one_connection_step:
  assumes inv: "one_connection s" and b: "from_browser e"
    and st: "step url_ok parse e s = Some s'"
  shows "one_connection s'"
proof (cases e)
  case (Opened k)
  with st have k: "k < length (sockets s)" "sockets s ! k \<noteq> CLOSED"
    and s': "s' = onopen (s\<lparr>sockets := (sockets s)[k := OPEN]\<rparr>)"
    by (auto split: if_splits)
  from one_connection_alive [OF inv k] have w: "ws s = Some k" "timeouts s = []"
    by simp_all
  from one_connection_others [OF inv k]
  have "\<forall>j < length (sockets s). j \<noteq> k \<longrightarrow> sockets s ! j = CLOSED"
    by simp
  then show ?thesis using w k
    by (auto simp add: s' one_connection_iff onopen_def nth_list_update split: if_splits)
next
  case (Message k p)
  with st inv show ?thesis
    by (auto simp add: one_connection_iff onmessage_def split: if_splits option.splits)
next
  case (Closed k)
  with st have k: "k < length (sockets s)" "sockets s ! k \<noteq> CLOSED"
    and s': "s' = onclose (s\<lparr>sockets := (sockets s)[k := CLOSED]\<rparr>)"
    by (auto split: if_splits)
  from one_connection_alive [OF inv k] have w: "ws s = Some k" "timeouts s = []"
    by simp_all
  from one_connection_others [OF inv k]
  have "\<forall>j < length (sockets s). j \<noteq> k \<longrightarrow> sockets s ! j = CLOSED"
    by simp
  then show ?thesis using w k
    by (auto simp add: s' one_connection_iff onclose_def setTimeout_def Let_def
          nth_list_update split: if_splits)
next
  case (Errored k)
  with st inv show ?thesis
    by (auto simp add: one_connection_iff onerror_def split: if_splits)
next
  case (TimeoutFired h)
  with st have h: "h \<in> fst ` set (timeouts s)"
    and s': "s' = connect url_ok (clearTimeout h s)"
    by (auto split: if_splits)
  from h have ne: "timeouts s \<noteq> []"
    by auto
  with inv have closed: "\<forall>j < length (sockets s). sockets s ! j = CLOSED"
    by (auto simp add: one_connection_iff)
  from inv ne h have "timeouts (clearTimeout h s) = []"
    by (cases "timeouts s") (auto simp add: one_connection_iff clearTimeout_def)
  with closed show ?thesis
    by (auto simp add: s' one_connection_iff connect_def clearTimeout_def Let_def nth_append)
next
  case Reconnect
  with b show ?thesis by simp
next
  case Unmount
  with b show ?thesis by simp
qed

lemma one_connection_run:
  "one_connection s \<Longrightarrow> list_all from_browser es \<Longrightarrow> run url_ok parse es s = Some s'
    \<Longrightarrow> one_connection s'"
proof (induction es arbitrary: s)
  case Nil
  then show ?case by simp
next
  case (Cons e es)
  then show ?case
    by (auto split: option.splits dest: one_connection_step)
qed

text \<open>
  So the hook owns one connection in every state that the browser alone drives it to
  after mounting.
\<close>

lemma one_connection_reachable:
  "list_all from_browser es \<Longrightarrow> run url_ok parse es (mount url_ok) = Some s
    \<Longrightarrow> one_connection s"
  using one_connection_run [OF one_connection_mount] by blast

subsection \<open>Manual reconnect\<close>

text \<open>
  Claim C6, which says that a manual reconnect cancels the pending reconnect timer and
  closes the open connection before it opens a new one. The returned \<^verbatim>\<open>reconnect\<close>
  is \<open>connect\<close>, which does neither. After the socket of a mounted hook has closed, a
  reconnect leaves the 3-second timeout pending, and when that fires a third socket is
  created while the second is still connecting. After the socket has opened, a reconnect
  leaves it open beside the new one. The effect, run again, does cancel the timeout and
  close the socket before it connects.
\<close>

theorem reconnect_keeps_timer_and_socket:
  "map_option connectionStatus (run True (\<lambda>_. None) [Closed 0, Reconnect] (mount True))
      = Some connecting
   \<and> map_option timeouts (run True (\<lambda>_. None) [Closed 0, Reconnect] (mount True))
      = Some [(1, 3000)]
   \<and> map_option sockets
        (run True (\<lambda>_. None) [Closed 0, Reconnect, TimeoutFired 1] (mount True))
      = Some [CLOSED, CONNECTING, CONNECTING]
   \<and> map_option sockets (run True (\<lambda>_. None) [Opened 0, Reconnect] (mount True))
      = Some [OPEN, CONNECTING]
   \<and> map_option (\<lambda>s. timeouts (rerun_effect True s))
        (run True (\<lambda>_. None) [Closed 0] (mount True))
      = Some []
   \<and> map_option (\<lambda>s. sockets (rerun_effect True s))
        (run True (\<lambda>_. None) [Opened 0] (mount True))
      = Some [CLOSING, CONNECTING]"
  by (simp add: mount_def connect_def initial_def Let_def onclose_def setTimeout_def
        clearTimeout_def onopen_def rerun_effect_def cleanup_def ws_close_def)

subsection \<open>Close, automatic reconnect and teardown\<close>

text \<open>
  What does hold. A close event on a socket sets the state to disconnected and adds
  exactly one timeout, with a delay of 3000 ms, whose handle the hook keeps and whose
  firing runs \<open>connect\<close>. A cleanup that follows at once removes that timeout. When
  moreover the hook owns one connection, nothing is pending after the cleanup and no
  event of the browser can happen any more.
\<close>

lemma close_then_cleanup:
  assumes k: "k < length (sockets s)" and alive: "sockets s ! k \<noteq> CLOSED"
  shows "\<exists>s1. step url_ok parse (Closed k) s = Some s1
      \<and> connectionStatus s1 = disconnected
      \<and> timeouts s1 = timeouts s @ [(Suc (lastTimeout s), 3000)]
      \<and> reconnectTimeoutRef s1 = Some (Suc (lastTimeout s))
      \<and> step url_ok parse (TimeoutFired (Suc (lastTimeout s))) s1
          = Some (connect url_ok (clearTimeout (Suc (lastTimeout s)) s1))
      \<and> Suc (lastTimeout s) \<notin> fst ` set (timeouts (cleanup s1))
      \<and> step url_ok parse (TimeoutFired (Suc (lastTimeout s))) (cleanup s1) = None
      \<and> (one_connection s \<longrightarrow>
           timeouts (cleanup s1) = []
           \<and> (\<forall>e. from_browser e \<longrightarrow> step url_ok parse e (cleanup s1) = None))"
proof -
  define s1 where "s1 = onclose (s\<lparr>sockets := (sockets s)[k := CLOSED]\<rparr>)"
  have st: "step url_ok parse (Closed k) s = Some s1"
    using k alive by (simp add: s1_def)
  have status: "connectionStatus s1 = disconnected"
    by (simp add: s1_def onclose_def setTimeout_def Let_def)
  have tm: "timeouts s1 = timeouts s @ [(Suc (lastTimeout s), 3000)]"
    by (simp add: s1_def onclose_def setTimeout_def Let_def)
  have ref: "reconnectTimeoutRef s1 = Some (Suc (lastTimeout s))"
    by (simp add: s1_def onclose_def setTimeout_def Let_def)
  have socks: "sockets s1 = (sockets s)[k := CLOSED]"
    by (simp add: s1_def onclose_def setTimeout_def Let_def)
  have fire: "step url_ok parse (TimeoutFired (Suc (lastTimeout s))) s1
      = Some (connect url_ok (clearTimeout (Suc (lastTimeout s)) s1))"
    by (simp add: tm)
  have gone: "Suc (lastTimeout s) \<notin> fst ` set (timeouts (cleanup s1))"
    by (auto simp add: cleanup_timeouts ref)
  then have nofire: "step url_ok parse (TimeoutFired (Suc (lastTimeout s))) (cleanup s1) = None"
    by simp
  have single: "timeouts (cleanup s1) = []
      \<and> (\<forall>e. from_browser e \<longrightarrow> step url_ok parse e (cleanup s1) = None)"
    if inv: "one_connection s"
  proof -
    from one_connection_alive [OF inv k alive] have w: "timeouts s = []"
      by simp
    have t0: "timeouts (cleanup s1) = []"
      by (simp add: cleanup_timeouts ref tm w)
    have "\<forall>j < length (sockets s1). sockets s1 ! j = CLOSED"
      using one_connection_others [OF inv k alive] k
      by (auto simp add: socks nth_list_update)
    then have "\<forall>j < length (sockets (cleanup s1)). sockets (cleanup s1) ! j = CLOSED"
      by (simp add: cleanup_length cleanup_sockets_closed)
    with t0 show ?thesis
      by (auto intro: quiet)
  qed
  from st status tm ref fire gone nofire single show ?thesis
    by blast
qed

text \<open>
  Claim C7, which says that a close event schedules one reconnect after 3 seconds and
  that, once the hook is torn down before that delay has passed, no reconnect is
  attempted. The first half holds (\<open>close_then_cleanup\<close>). The second half fails in two
  ways, because the cleanup only clears the handle held in \<^verbatim>\<open>reconnectTimeoutRef\<close>
  and calls \<^verbatim>\<open>close()\<close>, while the handlers stay attached.

  Unmounting a hook whose socket is open: the cleanup finds no timeout and closes the
  socket; the close event that follows runs \<open>onclose\<close>, which arms a timeout after the
  teardown, and when it fires a second socket is created.

  Unmounting after a manual reconnect: the socket closes (timeout 1), the user reconnects
  (timeout 1 stays pending, see C6), the second socket closes (timeout 2 replaces the
  handle), the hook is unmounted (timeout 2 is cleared), and timeout 1 fires: a third
  socket is created.
\<close>

theorem reconnect_after_teardown:
  "map_option sockets (run True (\<lambda>_. None) [Opened 0, Unmount] (mount True))
      = Some [CLOSING]
   \<and> map_option timeouts (run True (\<lambda>_. None) [Opened 0, Unmount] (mount True))
      = Some []
   \<and> map_option timeouts (run True (\<lambda>_. None) [Opened 0, Unmount, Closed 0] (mount True))
      = Some [(1, 3000)]
   \<and> map_option sockets
        (run True (\<lambda>_. None) [Opened 0, Unmount, Closed 0, TimeoutFired 1] (mount True))
      = Some [CLOSED, CONNECTING]
   \<and> map_option timeouts
        (run True (\<lambda>_. None) [Closed 0, Reconnect, Closed 1] (mount True))
      = Some [(1, 3000), (2, 3000)]
   \<and> map_option timeouts
        (run True (\<lambda>_. None) [Closed 0, Reconnect, Closed 1, Unmount] (mount True))
      = Some [(1, 3000)]
   \<and> map_option sockets
        (run True (\<lambda>_. None) [Closed 0, Reconnect, Closed 1, Unmount, TimeoutFired 1]
          (mount True))
      = Some [CLOSED, CLOSED, CONNECTING]"
  by (simp add: mount_def connect_def initial_def Let_def onclose_def setTimeout_def
        clearTimeout_def onopen_def cleanup_def ws_close_def)

subsection \<open>A message that is not a reading\<close>

text \<open>
  Claim C8, which says that a message that fails to decode as a reading sets the error
  and changes nothing else. The handler takes for a decoding failure only the exception of
  \<^verbatim>\<open>JSON.parse\<close>. The payload \<^verbatim>\<open>null\<close> is JSON and is not a reading: it sets no
  error, and \<^verbatim>\<open>data\<close>, which held the last reading, becomes \<^verbatim>\<open>null\<close>. The payload
  \<^verbatim>\<open>42\<close> likewise replaces the reading and sets no error.
\<close>

theorem json_that_is_no_reading_replaces_data:
  "example_parse ''null'' = Some Null
   \<and> data (conn example_app) = Reading (sample 70 36.5)
   \<and> error (conn example_app) = None
   \<and> app_step True example_parse (\<lambda>t. t) (\<lambda>_. ''70'') 5 (Message 0 ''null'') example_app
      = Inr (example_app\<lparr>conn := (conn example_app)\<lparr>data := Null, dataRef := 2\<rparr>\<rparr>)
   \<and> error (onmessage example_parse ''null'' (conn example_app)) = None
   \<and> data (onmessage example_parse ''null'' (conn example_app)) = Null
   \<and> error (onmessage example_parse ''42'' (conn example_app)) = None
   \<and> data (onmessage example_parse ''42'' (conn example_app)) = Other ''42''
   \<and> \<not> (error (onmessage example_parse ''null'' (conn example_app))
            = Some ''Invalid data format received''
          \<and> data (onmessage example_parse ''null'' (conn example_app)) = data (conn example_app))"
  by (simp add: example_parse_def example_app_def app_step_def onmessage_def on_data_def
        mount_def connect_def initial_def Let_def)

text \<open>
  Claim C8 as amended. When the payload of a message is not JSON, so that the parser
  throws, the handler sets the error to the invalid-data-format text and changes nothing
  else: the last reading, the connection state and the alerts of the monitor stay as they
  were, and the handler returns (the exception is caught).
\<close>

theorem decode_failure_frame:
  assumes fail: "parse payload = None"
    and k: "k < length (sockets (conn a))" and opened: "sockets (conn a) ! k = OPEN"
  shows "onmessage parse payload (conn a)
        = (conn a)\<lparr>error := Some ''Invalid data format received''\<rparr>
    \<and> (\<exists>a'. app_step url_ok parse toLocaleTimeString str now (Message k payload) a = Inr a'
          \<and> error (conn a') = Some ''Invalid data format received''
          \<and> data (conn a') = data (conn a)
          \<and> connectionStatus (conn a') = connectionStatus (conn a)
          \<and> alerts (view a') = alerts (view a)
          \<and> a' = a\<lparr>conn := (conn a)\<lparr>error := Some ''Invalid data format received''\<rparr>\<rparr>)"
  using assms by (simp add: app_step_def onmessage_def)

theorem decode_failure_frame_witness:
  "example_parse ''{oops'' = None
   \<and> (0::nat) < length (sockets (conn example_app)) \<and> sockets (conn example_app) ! 0 = OPEN
   \<and> (\<exists>a'. app_step True example_parse (\<lambda>t. t) (\<lambda>_. ''70'') 5 (Message 0 ''{oops'') example_app
            = Inr a'
        \<and> error (conn a') = Some ''Invalid data format received''
        \<and> data (conn a') = Reading (sample 70 36.5)
        \<and> connectionStatus (conn a') = connected
        \<and> map type (alerts (view a')) = [normal])"
proof -
  have throws: "example_parse ''{oops'' = None"
    by (simp add: example_parse_def)
  have socket: "(0::nat) < length (sockets (conn example_app))"
      "sockets (conn example_app) ! 0 = OPEN"
    by (simp_all add: example_app_def)
  have before: "data (conn example_app) = Reading (sample 70 36.5)"
      "connectionStatus (conn example_app) = connected"
    by (simp_all add: example_app_def)
  have alerts_before: "map type (alerts (view example_app)) = [normal]"
    by (simp add: example_app_def on_data_def monitor_initial_def analyzeHealthData_def
          sample_def cmp Let_def)
  from throws socket
    decode_failure_frame [where parse = example_parse and payload = "''{oops''" and k = 0
      and a = example_app and url_ok = True and toLocaleTimeString = "\<lambda>t. t"
      and str = "\<lambda>_. ''70''" and now = 5]
  obtain a' where
    "app_step True example_parse (\<lambda>t. t) (\<lambda>_. ''70'') 5 (Message 0 ''{oops'') example_app = Inr a'"
    "error (conn a') = Some ''Invalid data format received''"
    "data (conn a') = data (conn example_app)"
    "connectionStatus (conn a') = connectionStatus (conn example_app)"
    "alerts (view a') = alerts (view example_app)"
    by blast
  with before alerts_before socket throws show ?thesis
    by simp
qed

section \<open>The rolling history\<close>

text \<open>A negative start keeps that many entries at the end. (\<^verbatim>\<open>slice(-0)\<close> keeps all.)\<close>

lemma slice_last: "0 < n \<Longrightarrow> slice (- int n) xs = drop (length xs - n) xs"
  by (simp add: slice_def Let_def max_def nat_diff_distrib')

lemma push_history_drop: "push_history x prev = drop (length prev + 1 - 50) (prev @ [x])"
  using slice_last [of 50 "prev @ [x]"] by (simp add: push_history_def)

text \<open>
  Claim C9. The history never has more than 50 entries: it starts empty, the effect
  replaces it by the old history with the new reading appended and cut to its last 50,
  and leaves it alone when there is no reading; so the bound is kept. Appending to a
  history of 50 drops exactly its oldest entry; appending to a shorter one drops nothing;
  and what is kept is always the end of the old history followed by the new entry, in
  arrival order.
\<close>

theorem rolling_history_bound:
  "length (push_history x prev) \<le> 50
   \<and> (length prev = 50 \<longrightarrow> push_history x prev = tl prev @ [x])
   \<and> (length prev < 50 \<longrightarrow> push_history x prev = prev @ [x])
   \<and> (\<exists>old. prev @ [x] = old @ push_history x prev)
   \<and> length (ecgHistory monitor_initial) \<le> 50
   \<and> (length (ecgHistory m) \<le> 50 \<longrightarrow>
        length (ecgHistory (on_data toLocaleTimeString str now d m)) \<le> 50)
   \<and> ecgHistory (on_data toLocaleTimeString str now (Some dat) m)
      = push_history
          (ECGReading.extend dat (TimedReading.fields (toLocaleTimeString (timestamp dat))))
          (ecgHistory m)
   \<and> ecgHistory (on_data toLocaleTimeString str now None m) = ecgHistory m
   \<and> length (ecgHistory (on_data toLocaleTimeString str now (Some dat) m)) \<le> 50
   \<and> (length (ecgHistory m) = 50 \<longrightarrow>
        ecgHistory (on_data toLocaleTimeString str now (Some dat) m)
        = tl (ecgHistory m)
          @ [ECGReading.extend dat (TimedReading.fields (toLocaleTimeString (timestamp dat)))])
   \<and> (length (ecgHistory m) < 50 \<longrightarrow>
        ecgHistory (on_data toLocaleTimeString str now (Some dat) m)
        = ecgHistory m
          @ [ECGReading.extend dat (TimedReading.fields (toLocaleTimeString (timestamp dat)))])
   \<and> (\<exists>old. ecgHistory m
          @ [ECGReading.extend dat (TimedReading.fields (toLocaleTimeString (timestamp dat)))]
        = old @ ecgHistory (on_data toLocaleTimeString str now (Some dat) m))"
proof -
  have bound: "length (push_history y ys) \<le> 50" for y ys
    by (simp add: push_history_drop)
  have full: "length ys = 50 \<longrightarrow> push_history y ys = tl ys @ [y]" for y ys
    by (cases ys) (simp_all add: push_history_drop)
  have short: "length ys < 50 \<longrightarrow> push_history y ys = ys @ [y]" for y ys
    by (simp add: push_history_drop)
  have order: "\<exists>old. ys @ [y] = old @ push_history y ys" for y ys
    unfolding push_history_drop by (metis append_take_drop_id)
  have start: "length (ecgHistory monitor_initial) \<le> 50"
    by (simp add: monitor_initial_def)
  have kept: "length (ecgHistory m) \<le> 50 \<longrightarrow>
      length (ecgHistory (on_data toLocaleTimeString str now d m)) \<le> 50"
    by (cases d) (simp_all add: on_data_def Let_def bound)
  have pushed: "ecgHistory (on_data toLocaleTimeString str now (Some dat) m)
      = push_history
          (ECGReading.extend dat (TimedReading.fields (toLocaleTimeString (timestamp dat))))
          (ecgHistory m)"
    by (simp add: on_data_def Let_def)
  have idle: "ecgHistory (on_data toLocaleTimeString str now None m) = ecgHistory m"
    by (simp add: on_data_def)
  show ?thesis
    unfolding pushed idle
    using bound full short order start kept by blast
qed

theorem rolling_history_bound_witness:
  "length (map timed [0..<50]) = 50
   \<and> push_history (timed 50) (map timed [0..<50]) = tl (map timed [0..<50]) @ [timed 50]
   \<and> length (push_history (timed 50) (map timed [0..<50])) \<le> 50
   \<and> length (ecgHistory full_monitor) = 50
   \<and> ecgHistory (on_data (\<lambda>_. ''t'') example_str 0 (Some (sample 50 36.5)) full_monitor)
      = tl (map timed [0..<50]) @ [timed 50]"
proof -
  have len: "length (map timed [0..<50]) = 50"
    by simp
  have hist: "ecgHistory full_monitor = map timed [0..<50]"
    by (simp add: full_monitor_def)
  have entry: "ECGReading.extend (sample 50 36.5)
      (TimedReading.fields ((\<lambda>_. ''t'') (timestamp (sample 50 36.5)))) = timed 50"
    by (simp add: timed_def)
  from rolling_history_bound [where x = "timed 50" and prev = "map timed [0..<50]"
      and m = full_monitor and toLocaleTimeString = "\<lambda>_. ''t''" and str = example_str
      and now = 0 and d = None and dat = "sample 50 36.5"] len
  have "push_history (timed 50) (map timed [0..<50]) = tl (map timed [0..<50]) @ [timed 50]"
    and "length (push_history (timed 50) (map timed [0..<50])) \<le> 50"
    and "length (ecgHistory full_monitor) = 50 \<longrightarrow>
        ecgHistory (on_data (\<lambda>_. ''t'') example_str 0 (Some (sample 50 36.5)) full_monitor)
        = tl (ecgHistory full_monitor)
          @ [ECGReading.extend (sample 50 36.5)
              (TimedReading.fields ((\<lambda>_. ''t'') (timestamp (sample 50 36.5))))]"
    by blast+
  with len hist entry show ?thesis
    by simp
qed

end
